theory Spec2Isabelle
  imports Complex_Main "HOL-Library.Log_Nat"
begin

section \<open>Python values\<close>

text \<open>
  A Python \<^verbatim>\<open>str\<close> is a sequence of Unicode code points, and \<^verbatim>\<open>len\<close>, slicing and
  the justification methods count code points. A string is therefore a list of
  code points; \<open>ascii\<close> embeds an ASCII literal.
\<close>

type_synonym pystr = "nat list"

definition ascii :: "string \<Rightarrow> pystr" where
  "ascii cs = map of_char cs"

datatype py_error = IndexError | AttributeError | ValueError | OverflowError

text \<open>\<^verbatim>\<open>int(x)\<close> on a number truncates towards zero.\<close>

definition py_int :: "rat \<Rightarrow> int" where
  "py_int x = (if 0 \<le> x then \<lfloor>x\<rfloor> else \<lceil>x\<rceil>)"

text \<open>
  A Python \<^verbatim>\<open>float\<close> is an IEEE 754 double. A finite double is modelled by its value, a
  rational number. \<open>double_round\<close> rounds a rational to the nearest double, ties to the
  even significand: \<open>exponent_of x\<close> is \<open>floor(log2 x)\<close>, the significand has 53 bits, and
  the unit in the last place is never below \<open>2^-1074\<close> (the subnormal range).
  The infinities, the NaNs and the sign of zero are not modelled.
\<close>

definition pow2 :: "int \<Rightarrow> rat" where
  "pow2 k = (if 0 \<le> k then 2 ^ nat k else 1 / 2 ^ nat (- k))"

definition exponent_of :: "rat \<Rightarrow> int" where
  "exponent_of x =
     (if 1 \<le> x then int (floorlog 2 (nat \<lfloor>x\<rfloor>)) - 1
      else - int (ceillog2 (nat \<lceil>1 / x\<rceil>)))"

definition round_half_even :: "rat \<Rightarrow> int" where
  "round_half_even y =
     (let f = \<lfloor>y\<rfloor>; r = y - of_int f
      in if r < 1 / 2 then f
         else if 1 / 2 < r then f + 1
         else if even f then f else f + 1)"

definition double_round :: "rat \<Rightarrow> rat" where
  "double_round x =
     (if x = 0 then 0
      else (let q = max (exponent_of \<bar>x\<bar> - 52) (- 1074)
            in of_int (round_half_even (x / pow2 q)) * pow2 q))"

text \<open>
  The result of an arithmetic operation whose exact value is \<open>x\<close>: the nearest double,
  or an overflow when that is beyond the largest double. Converting an integer to a
  float and dividing two integers raise \<^verbatim>\<open>OverflowError\<close> there; a float product becomes
  infinite, and \<^verbatim>\<open>int\<close> of an infinity raises \<^verbatim>\<open>OverflowError\<close>.
\<close>

definition to_double :: "rat \<Rightarrow> py_error + rat" where
  "to_double x =
     (let r = double_round x
      in if \<bar>r\<bar> < 2 ^ 1024 then Inr r else Inl OverflowError)"

text \<open>\<^verbatim>\<open>s * n\<close> repeats a string; a count of zero or less gives the empty string.\<close>

definition py_repeat :: "pystr \<Rightarrow> int \<Rightarrow> pystr" where
  "py_repeat s n = concat (replicate (nat n) s)"

text \<open>\<^verbatim>\<open>xs[start:end]\<close>: a negative index counts from the end, and both are clipped.\<close>

definition py_index :: "nat \<Rightarrow> int \<Rightarrow> nat" where
  "py_index n k = (if k < 0 then nat (max 0 (int n + k)) else min (nat k) n)"

definition py_slice :: "'a list \<Rightarrow> int \<Rightarrow> int \<Rightarrow> 'a list" where
  "py_slice xs start end =
     (let s = py_index (length xs) start; e = py_index (length xs) end
      in take (e - s) (drop s xs))"

text \<open>\<^verbatim>\<open>str(n)\<close> for an integer: decimal digits, with a minus sign when negative.\<close>

function str_nat :: "nat \<Rightarrow> pystr" where
  "str_nat n = (if n < 10 then [48 + n] else str_nat (n div 10) @ [48 + n mod 10])"
  by pat_completeness auto
termination
  by (relation "measure id") auto

declare str_nat.simps [simp del]

definition str_int :: "int \<Rightarrow> pystr" where
  "str_int k = (if k < 0 then 45 # str_nat (nat (- k)) else str_nat (nat k))"

text \<open>\<^verbatim>\<open>s.ljust(w)\<close> and \<^verbatim>\<open>s.rjust(w)\<close> pad with spaces up to width \<open>w\<close>.\<close>

definition ljust :: "pystr \<Rightarrow> nat \<Rightarrow> pystr" where
  "ljust s w = s @ replicate (w - length s) 32"

definition rjust :: "pystr \<Rightarrow> nat \<Rightarrow> pystr" where
  "rjust s w = replicate (w - length s) 32 @ s"

text \<open>\<^verbatim>\<open>sub in s\<close>: \<open>sub\<close> occurs in \<open>s\<close> as a contiguous run.\<close>

fun py_in :: "pystr \<Rightarrow> pystr \<Rightarrow> bool" where
  "py_in sub [] = (sub = [])"
| "py_in sub (c # cs) = (take (length sub) (c # cs) = sub \<or> py_in sub cs)"

text \<open>\<^verbatim>\<open>sep.join(parts)\<close>.\<close>

fun py_join :: "pystr \<Rightarrow> pystr list \<Rightarrow> pystr" where
  "py_join sep [] = []"
| "py_join sep [x] = x"
| "py_join sep (x # y # ys) = x @ sep @ py_join sep (y # ys)"

text \<open>
  Case mapping, on the ASCII letters (the permission names and the labels of this
  program are ASCII; other code points are left as they are).
  \<^verbatim>\<open>s.title()\<close> upper-cases a letter that follows an uncased character and
  lower-cases a letter that follows a cased one.
\<close>

definition is_upper :: "nat \<Rightarrow> bool" where
  "is_upper c = (65 \<le> c \<and> c \<le> 90)"

definition is_lower :: "nat \<Rightarrow> bool" where
  "is_lower c = (97 \<le> c \<and> c \<le> 122)"

definition to_upper :: "nat \<Rightarrow> nat" where
  "to_upper c = (if is_lower c then c - 32 else c)"

definition to_lower :: "nat \<Rightarrow> nat" where
  "to_lower c = (if is_upper c then c + 32 else c)"

definition upper :: "pystr \<Rightarrow> pystr" where
  "upper s = map to_upper s"

fun title_from :: "bool \<Rightarrow> pystr \<Rightarrow> pystr" where
  "title_from previous_is_cased [] = []"
| "title_from previous_is_cased (c # cs) =
     (if previous_is_cased then to_lower c else to_upper c)
       # title_from (is_upper c \<or> is_lower c) cs"

definition title :: "pystr \<Rightarrow> pystr" where
  "title s = title_from False s"

definition replace :: "nat \<Rightarrow> nat \<Rightarrow> pystr \<Rightarrow> pystr" where
  "replace old new s = map (\<lambda>c. if c = old then new else c) s"

section \<open>UI configuration and helper functions\<close>

definition BG_COLOR :: nat where
  "BG_COLOR = 0x2b2d31"

definition ANSI_RESET :: pystr where "ANSI_RESET = 27 # ascii ''[0m''"
definition ANSI_BOLD :: pystr where "ANSI_BOLD = 27 # ascii ''[1m''"
definition ANSI_BLUE :: pystr where "ANSI_BLUE = 27 # ascii ''[34m''"
definition ANSI_CYAN :: pystr where "ANSI_CYAN = 27 # ascii ''[36m''"
definition ANSI_GREEN :: pystr where "ANSI_GREEN = 27 # ascii ''[32m''"
definition ANSI_MAGENTA :: pystr where "ANSI_MAGENTA = 27 # ascii ''[35m''"
definition ANSI_RED :: pystr where "ANSI_RED = 27 # ascii ''[31m''"
definition ANSI_WHITE :: pystr where "ANSI_WHITE = 27 # ascii ''[37m''"
definition ANSI_YELLOW :: pystr where "ANSI_YELLOW = 27 # ascii ''[33m''"

text \<open>The two bar glyphs: U+2588 (full block) and U+2591 (light shade).\<close>

definition FILLED :: nat where "FILLED = 0x2588"
definition EMPTY :: nat where "EMPTY = 0x2591"

text \<open>
  \<^verbatim>\<open>create_progress_bar(percentage, length)\<close>. The percentage is a float, so the
  product \<^verbatim>\<open>length * percentage\<close> converts the length to a float and multiplies in
  double precision; \<^verbatim>\<open>int\<close> truncates the rounded product. (The renderer also passes
  the integer 0, for which the integer product is 0 as well.)
\<close>

definition create_progress_bar :: "rat \<Rightarrow> int \<Rightarrow> py_error + pystr" where
  "create_progress_bar percentage len =
     (case to_double (of_int len) of
        Inl e \<Rightarrow> Inl e
      | Inr float_len \<Rightarrow>
          (case to_double (float_len * percentage) of
             Inl e \<Rightarrow> Inl e
           | Inr product \<Rightarrow>
               (let filled = py_int product;
                    empty = len - filled
                in Inr (py_repeat [FILLED] filled @ py_repeat [EMPTY] empty))))"

definition format_ansi_row :: "pystr \<Rightarrow> nat \<Rightarrow> rat \<Rightarrow> bool \<Rightarrow> py_error + pystr" where
  "format_ansi_row role_name member_count percentage is_hoisted =
     (let name_display =
            (if length role_name > 18 then take 18 role_name @ ascii ''..''
             else ljust role_name 20);
          name_color = ANSI_WHITE;
          name_color = (if is_hoisted then ANSI_CYAN else name_color);
          name_color =
            (if py_in (ascii ''Admin'') role_name \<or> py_in (ascii ''Mod'') role_name
             then ANSI_MAGENTA else name_color)
      in case create_progress_bar percentage 8 of
           Inl e \<Rightarrow> Inl e
         | Inr bar \<Rightarrow>
             Inr (name_color @ name_display @ ANSI_RESET @ ascii '' ''
                  @ ANSI_BLUE @ [0x2502] @ ANSI_RESET @ ascii '' ''
                  @ ANSI_YELLOW @ rjust (str_int (int member_count)) 3 @ ANSI_RESET @ ascii '' ''
                  @ ANSI_GREEN @ bar @ ANSI_RESET))"

section \<open>The guild, as the host library presents it\<close>

text \<open>
  The attributes of a \<^verbatim>\<open>discord.Role\<close> that the program reads. \<open>r_members\<close> are the
  identifiers of the members holding the role (the program only takes its length),
  \<open>r_permissions\<close> is what iterating \<^verbatim>\<open>role.permissions\<close> yields (name and flag),
  \<open>r_administrator\<close> is \<^verbatim>\<open>role.permissions.administrator\<close>, \<open>r_color_value\<close> and
  \<open>r_color_str\<close> are \<^verbatim>\<open>role.color.value\<close> and \<^verbatim>\<open>str(role.color)\<close>, and
  \<open>r_created_at\<close> is \<^verbatim>\<open>role.created_at.timestamp()\<close>.
\<close>

record role =
  r_id :: int
  r_name :: pystr
  r_mention :: pystr
  r_members :: "int list"
  r_hoist :: bool
  r_mentionable :: bool
  r_administrator :: bool
  r_permissions :: "(pystr \<times> bool) list"
  r_color_value :: nat
  r_color_str :: pystr
  r_created_at :: rat

text \<open>\<open>g_icon_url\<close> is \<^verbatim>\<open>guild.icon.url\<close>, or \<open>None\<close> when \<^verbatim>\<open>guild.icon\<close> is \<^verbatim>\<open>None\<close>.\<close>

record guild =
  g_name :: pystr
  g_icon_url :: "pystr option"
  g_member_count :: int
  g_roles :: "role list"

text \<open>\<^verbatim>\<open>guild.get_role(role_id)\<close>: the role with that identifier, or \<^verbatim>\<open>None\<close>.\<close>

definition get_role :: "guild \<Rightarrow> int \<Rightarrow> role option" where
  "get_role g role_id = find (\<lambda>r. r_id r = role_id) (g_roles g)"

record interaction =
  i_user_id :: int
  i_guild :: guild

definition EVERYONE :: pystr where
  "EVERYONE = ascii ''@everyone''"

definition NL :: pystr where
  "NL = [10]"

definition FENCE :: pystr where
  "FENCE = replicate 3 96"

section \<open>Messages and interactive components\<close>

record embed =
  e_title :: "pystr option"
  e_description :: "pystr option"
  e_color :: nat
  e_author :: "(pystr \<times> pystr option) option"
  e_fields :: "(pystr \<times> pystr \<times> bool) list"
  e_image :: "pystr option"
  e_footer :: "pystr option"

definition Embed :: "pystr option \<Rightarrow> pystr option \<Rightarrow> nat \<Rightarrow> embed" where
  "Embed t d c =
     \<lparr>e_title = t, e_description = d, e_color = c, e_author = None, e_fields = [],
      e_image = None, e_footer = None\<rparr>"

definition add_field :: "pystr \<Rightarrow> pystr \<Rightarrow> bool \<Rightarrow> embed \<Rightarrow> embed" where
  "add_field n v inl e = e\<lparr>e_fields := e_fields e @ [(n, v, inl)]\<rparr>"

record select_option =
  o_label :: pystr
  o_value :: pystr
  o_description :: pystr
  o_emoji :: pystr

record role_detail_select =
  s_placeholder :: pystr
  s_min_values :: nat
  s_max_values :: nat
  s_options :: "select_option list"
  s_values :: "pystr list"

datatype button_style = Primary | Secondary

record button =
  b_label :: pystr
  b_style :: button_style
  b_disabled :: bool
  b_custom_id :: pystr

record pagination_view =
  timeout :: nat
  roles :: "role list"
  author_id :: int
  current_page :: int
  items_per_page :: int
  total_pages :: int
  select :: role_detail_select
  prev_btn :: button
  page_counter :: button
  next_btn :: button

text \<open>
  What a handler asks of the platform, in order: the awaited calls on
  \<^verbatim>\<open>interaction.response\<close> and \<^verbatim>\<open>interaction.followup\<close>. The Boolean is the
  \<^verbatim>\<open>ephemeral\<close> flag. A handler returns the calls it made and the exception that ended
  it, if any.
\<close>

datatype response =
    Defer
  | Followup_send_text pystr
  | Followup_send_view embed pagination_view
  | Send_message_text pystr bool
  | Send_message_embed embed bool
  | Edit_message embed pagination_view

type_synonym outcome = "response list \<times> py_error option"

section \<open>The role-detail selector\<close>

definition RoleDetailSelect_init :: "role list \<Rightarrow> role_detail_select" where
  "RoleDetailSelect_init rs =
     \<lparr>s_placeholder = [0x1F50D] @ ascii '' Inspect a specific role...'',
      s_min_values = 1,
      s_max_values = 1,
      s_options =
        map (\<lambda>role.
              \<lparr>o_label = r_name role,
               o_value = str_int (r_id role),
               o_description =
                 ascii ''ID: '' @ str_int (r_id role) @ [32, 0x2022, 32]
                 @ str_int (int (length (r_members role))) @ ascii '' members'',
               o_emoji =
                 (if r_administrator role then [0x1F6E1, 0xFE0F] else [0x1F3F7, 0xFE0F])\<rparr>)
          (filter (\<lambda>role. r_name role \<noteq> EVERYONE) (take 25 rs)),
      s_values = []\<rparr>"

text \<open>
  \<^verbatim>\<open>int(s)\<close> on the decimal numerals that \<^verbatim>\<open>str\<close> writes (an optional sign, then
  ASCII digits), which is what the selector's option values are; anything else is a
  \<^verbatim>\<open>ValueError\<close>.
\<close>

fun digits_value :: "nat \<Rightarrow> pystr \<Rightarrow> nat option" where
  "digits_value acc [] = Some acc"
| "digits_value acc (c # cs) =
     (if 48 \<le> c \<and> c \<le> 57 then digits_value (10 * acc + (c - 48)) cs else None)"

definition int_of_str :: "pystr \<Rightarrow> int option" where
  "int_of_str s =
     (case s of
        [] \<Rightarrow> None
      | c # cs \<Rightarrow>
          if c = 45 \<or> c = 43
          then (if cs = [] then None
                else map_option (\<lambda>n. if c = 45 then - int n else int n) (digits_value 0 cs))
          else map_option int (digits_value 0 s))"

text \<open>The permissions visualizer of the callback (the list \<^verbatim>\<open>perms\<close> and \<^verbatim>\<open>perm_str\<close>).\<close>

definition perms_of :: "role \<Rightarrow> pystr list" where
  "perms_of role = map (\<lambda>p. title (replace 95 32 (fst p))) (filter snd (r_permissions role))"

definition perm_str_of :: "role \<Rightarrow> pystr" where
  "perm_str_of role =
     (let perms = perms_of role;
          perm_str = py_join NL (map (\<lambda>p. [0x2705, 32] @ p) (take 8 perms))
      in if length perms > 8
         then perm_str @ NL @ ascii ''...and '' @ str_int (int (length perms) - 8) @ ascii '' more''
         else perm_str)"

definition yes_no :: "bool \<Rightarrow> pystr" where
  "yes_no b = (if b then ascii ''Yes'' else ascii ''No'')"

text \<open>The drill-down embed that the callback builds from the role it found.\<close>

definition detail_embed :: "role \<Rightarrow> embed" where
  "detail_embed role =
     (let embed =
            Embed (Some ([0x1F539, 32] @ r_name role))
              (Some (ascii ''Detailed analysis for '' @ r_mention role))
              (if r_color_value role \<noteq> 0 then r_color_value role else BG_COLOR);
          perm_str = perm_str_of role;
          embed =
            add_field ([0x1F511] @ ascii '' Key Permissions'')
              (FENCE @ ascii ''diff'' @ NL
               @ (if perm_str \<noteq> [] then perm_str else ascii ''No special perms'')
               @ NL @ FENCE)
              True embed;
          stats =
            ascii ''**Hoisted:** '' @ yes_no (r_hoist role) @ NL
            @ ascii ''**Mentionable:** '' @ yes_no (r_mentionable role) @ NL
            @ ascii ''**Created:** <t:'' @ str_int (py_int (r_created_at role)) @ ascii '':R>'' @ NL
            @ ascii ''**Color Hex:** '' @ r_color_str role
      in add_field ([0x1F4CA] @ ascii '' Configuration'') stats True embed)"

text \<open>
  \<^verbatim>\<open>RoleDetailSelect.callback\<close>. \<^verbatim>\<open>self.values[0]\<close> raises \<^verbatim>\<open>IndexError\<close> on an empty
  list, \<^verbatim>\<open>int\<close> raises \<^verbatim>\<open>ValueError\<close>, and reading \<^verbatim>\<open>role.name\<close> when \<^verbatim>\<open>get_role\<close>
  returned \<^verbatim>\<open>None\<close> raises \<^verbatim>\<open>AttributeError\<close>.
\<close>

definition RoleDetailSelect_callback :: "role_detail_select \<Rightarrow> interaction \<Rightarrow> outcome" where
  "RoleDetailSelect_callback self i =
     (case s_values self of
        [] \<Rightarrow> ([], Some IndexError)
      | v # _ \<Rightarrow>
          (case int_of_str v of
             None \<Rightarrow> ([], Some ValueError)
           | Some role_id \<Rightarrow>
               (case get_role (i_guild i) role_id of
                  None \<Rightarrow> ([], Some AttributeError)
                | Some role \<Rightarrow> ([Send_message_embed (detail_embed role) True], None))))"

section \<open>The pagination view\<close>

text \<open>
  \<^verbatim>\<open>update_buttons\<close>: the three assignments to the buttons' attributes.
\<close>

definition update_buttons :: "pagination_view \<Rightarrow> pagination_view" where
  "update_buttons self =
     self\<lparr>prev_btn := (prev_btn self)\<lparr>b_disabled := (current_page self = 0)\<rparr>,
          next_btn := (next_btn self)\<lparr>b_disabled := (current_page self = total_pages self - 1)\<rparr>,
          page_counter := (page_counter self)
            \<lparr>b_label := ascii ''Page '' @ str_int (current_page self + 1)
                        @ ascii ''/'' @ str_int (total_pages self)\<rparr>\<rparr>"

text \<open>
  \<^verbatim>\<open>PaginationView.__init__\<close>. The buttons start with the attributes their decorators
  give them. \<^verbatim>\<open>math.ceil(len(self.roles) / self.items_per_page)\<close> divides as floats; the
  model divides exactly.
\<close>

definition PaginationView_init :: "role list \<Rightarrow> int \<Rightarrow> pagination_view" where
  "PaginationView_init rs author =
     (let self_roles = rev (filter (\<lambda>r. r_name r \<noteq> EVERYONE) rs);
          per_page = 10
      in update_buttons
           \<lparr>timeout = 60,
            roles = self_roles,
            author_id = author,
            current_page = 0,
            items_per_page = per_page,
            total_pages = \<lceil>rat_of_nat (length self_roles) / rat_of_int per_page\<rceil>,
            select = RoleDetailSelect_init self_roles,
            prev_btn =
              \<lparr>b_label = [0x25C4] @ ascii '' Previous'', b_style = Secondary,
               b_disabled = False, b_custom_id = ascii ''prev''\<rparr>,
            page_counter =
              \<lparr>b_label = ascii ''Page 1/1'', b_style = Primary,
               b_disabled = True, b_custom_id = ascii ''counter''\<rparr>,
            next_btn =
              \<lparr>b_label = ascii ''Next '' @ [0x25BA], b_style = Secondary,
               b_disabled = False, b_custom_id = ascii ''next''\<rparr>\<rparr>)"

text \<open>The slice of the current page, as \<^verbatim>\<open>generate_dashboard_embed\<close> takes it.\<close>

definition page_roles :: "pagination_view \<Rightarrow> role list" where
  "page_roles self =
     (let start = current_page self * items_per_page self;
          end = start + items_per_page self
      in py_slice (roles self) start end)"

text \<open>
  The loop of \<^verbatim>\<open>generate_dashboard_embed\<close> that builds the rows of the table, one per
  role of the page. The quotient \<^verbatim>\<open>len(role.members) / total_members\<close> is a float.
\<close>

fun dashboard_rows :: "int \<Rightarrow> role list \<Rightarrow> py_error + pystr list" where
  "dashboard_rows total_members [] = Inr []"
| "dashboard_rows total_members (role # rest) =
     (case (if total_members > 0
            then to_double (rat_of_nat (length (r_members role)) / rat_of_int total_members)
            else Inr 0) of
        Inl e \<Rightarrow> Inl e
      | Inr perc \<Rightarrow>
          (case format_ansi_row (r_name role) (length (r_members role)) perc (r_hoist role) of
             Inl e \<Rightarrow> Inl e
           | Inr row \<Rightarrow>
               (case dashboard_rows total_members rest of
                  Inl e \<Rightarrow> Inl e
                | Inr rows \<Rightarrow> Inr (row # rows))))"

text \<open>
  \<^verbatim>\<open>generate_dashboard_embed\<close>. \<open>now\<close> is \<^verbatim>\<open>datetime.datetime.now().timestamp()\<close>.
  \<^verbatim>\<open>self.roles[0]\<close> raises \<^verbatim>\<open>IndexError\<close> when the list is empty.
\<close>

definition generate_dashboard_embed ::
  "rat \<Rightarrow> pagination_view \<Rightarrow> guild \<Rightarrow> py_error + embed" where
  "generate_dashboard_embed now self guild =
     (let total_members = g_member_count guild;
          embed = Embed None None BG_COLOR;
          embed = embed\<lparr>e_author :=
                    Some (ascii ''SERVER ROLE MATRIX: '' @ upper (g_name guild), g_icon_url guild)\<rparr>;
          header = ANSI_BOLD @ ascii ''ROLE NAME            '' @ [0x2502]
                   @ ascii '' MEM PREVALENCE'' @ ANSI_RESET
      in case dashboard_rows total_members (page_roles self) of
           Inl e \<Rightarrow> Inl e
         | Inr rows \<Rightarrow>
             (let ansi_block = FENCE @ ascii ''ansi'' @ NL @ header @ NL @ py_repeat [0x2501] 35
                               @ NL @ py_join NL rows @ NL @ FENCE;
                  embed = embed\<lparr>e_description := Some ansi_block\<rparr>;
                  embed = add_field (ascii ''TOTAL ROLES'')
                            (ascii ''**'' @ str_int (int (length (roles self))) @ ascii ''**'')
                            True embed
              in case roles self of
                   [] \<Rightarrow> Inl IndexError
                 | highest # _ \<Rightarrow>
                     (let embed = add_field (ascii ''HIGHEST ROLE'') (r_mention highest) True embed;
                          embed = add_field (ascii ''UPDATED'')
                                    (ascii ''<t:'' @ str_int (py_int now) @ ascii '':R>'') True embed;
                          embed = embed\<lparr>e_image := Some (ascii
                            ''https://media.discordapp.net/attachments/1000000000000000000/1000000000000000000/transparent_divider.png'')\<rparr>;
                          embed = embed\<lparr>e_footer :=
                            Some (ascii ''System ID: R-800 '' @ [0x2022]
                                  @ ascii '' Interactive Dashboard'')\<rparr>
                      in Inr embed)))"

text \<open>
  The callbacks of the two page buttons. They return the view as they leave it, with
  the calls made and the exception raised, if any.
\<close>

definition NOT_YOURS :: pystr where
  "NOT_YOURS = ascii ''This isn't your dashboard.''"

definition prev_btn_callback ::
  "rat \<Rightarrow> pagination_view \<Rightarrow> interaction \<Rightarrow> pagination_view \<times> outcome" where
  "prev_btn_callback now self i =
     (if i_user_id i \<noteq> author_id self
      then (self, [Send_message_text NOT_YOURS True], None)
      else
        (let self = self\<lparr>current_page := current_page self - 1\<rparr>;
             self = update_buttons self
         in case generate_dashboard_embed now self (i_guild i) of
              Inl e \<Rightarrow> (self, [], Some e)
            | Inr em \<Rightarrow> (self, [Edit_message em self], None)))"

text \<open>The page counter is a display button: its callback does nothing.\<close>

definition page_counter_callback ::
  "pagination_view \<Rightarrow> interaction \<Rightarrow> pagination_view \<times> outcome" where
  "page_counter_callback self i = (self, [], None)"

definition next_btn_callback ::
  "rat \<Rightarrow> pagination_view \<Rightarrow> interaction \<Rightarrow> pagination_view \<times> outcome" where
  "next_btn_callback now self i =
     (if i_user_id i \<noteq> author_id self
      then (self, [Send_message_text NOT_YOURS True], None)
      else
        (let self = self\<lparr>current_page := current_page self + 1\<rparr>;
             self = update_buttons self
         in case generate_dashboard_embed now self (i_guild i) of
              Inl e \<Rightarrow> (self, [], Some e)
            | Inr em \<Rightarrow> (self, [Edit_message em self], None)))"

section \<open>The command\<close>

text \<open>
  The \<^verbatim>\<open>roles\<close> command: defer, read \<^verbatim>\<open>interaction.guild.roles\<close>, and either report
  that there are none or build the view and the embed and send them.
\<close>

definition roles_command :: "rat \<Rightarrow> interaction \<Rightarrow> outcome" where
  "roles_command now i =
     (let rs = g_roles (i_guild i)
      in if rs = [] then ([Defer, Followup_send_text (ascii ''No roles found!'')], None)
         else
           (let view = PaginationView_init rs (i_user_id i)
            in case generate_dashboard_embed now view (i_guild i) of
                 Inl e \<Rightarrow> ([Defer], Some e)
               | Inr em \<Rightarrow> ([Defer, Followup_send_view em view], None)))"

section \<open>The specification's progress bar\<close>

text \<open>
  The bar as the specification words it: \<open>round(length * fraction)\<close> filled glyphs, then
  empty glyphs up to \<open>length\<close>. It is compared with \<open>create_progress_bar\<close> below.
\<close>

definition progress_bar_spec :: "rat \<Rightarrow> int \<Rightarrow> pystr" where
  "progress_bar_spec fraction len =
     replicate (nat (round (of_int len * fraction))) FILLED
     @ replicate (nat (len - round (of_int len * fraction))) EMPTY"

section \<open>Sample data\<close>

definition sample_role :: "int \<Rightarrow> pystr \<Rightarrow> (pystr \<times> bool) list \<Rightarrow> role" where
  "sample_role k n ps =
     \<lparr>r_id = k, r_name = n, r_mention = ascii ''<@&'' @ str_int k @ ascii ''>'',
      r_members = [], r_hoist = False, r_mentionable = False,
      r_administrator = ((ascii ''administrator'', True) \<in> set ps),
      r_permissions = ps, r_color_value = 0, r_color_str = ascii ''#000000'',
      r_created_at = 0\<rparr>"

definition everyone_role :: role where
  "everyone_role = sample_role 1 EVERYONE []"

definition sample_guild :: "role list \<Rightarrow> guild" where
  "sample_guild rs =
     \<lparr>g_name = ascii ''guild'', g_icon_url = None, g_member_count = 5, g_roles = rs\<rparr>"

definition member_role :: "nat \<Rightarrow> role" where
  "member_role k = sample_role (int k) (ascii ''Member'') []"

definition twenty_three_roles :: "role list" where
  "twenty_three_roles = everyone_role # map member_role [2..<25]"

definition helper_role :: role where
  "helper_role = sample_role 42 (ascii ''Helper'') []"

definition admin_permissions :: "(pystr \<times> bool) list" where
  "admin_permissions =
     [(ascii ''create_instant_invite'', True), (ascii ''kick_members'', True),
      (ascii ''ban_members'', True), (ascii ''administrator'', True),
      (ascii ''manage_channels'', True), (ascii ''manage_guild'', True),
      (ascii ''add_reactions'', False), (ascii ''view_audit_log'', True),
      (ascii ''priority_speaker'', False), (ascii ''stream'', True),
      (ascii ''read_messages'', True), (ascii ''send_messages'', True),
      (ascii ''send_tts_messages'', True), (ascii ''manage_messages'', True)]"

definition admin_role :: role where
  "admin_role = sample_role 7 (ascii ''Admin'') admin_permissions"

text \<open>The name of the permissions field of the detail panel.\<close>

definition KEY_PERMISSIONS :: pystr where
  "KEY_PERMISSIONS = [0x1F511] @ ascii '' Key Permissions''"

definition three_roles :: "role list" where
  "three_roles = [everyone_role, helper_role, admin_role]"

section \<open>Double-precision rounding and the progress bar\<close>

lemma floor_rat_numeral:
  "\<lfloor>numeral a / numeral b :: rat\<rfloor> = numeral a div numeral b"
  using floor_divide_of_int_eq [of "numeral a" "numeral b", where ?'a = rat] by simp

lemma round_half_even_bounds:
  "\<lfloor>y\<rfloor> \<le> round_half_even y" "round_half_even y \<le> \<lceil>y\<rceil>"
proof -
  show "\<lfloor>y\<rfloor> \<le> round_half_even y"
    by (simp add: round_half_even_def Let_def)
  have "\<lfloor>y\<rfloor> + 1 \<le> \<lceil>y\<rceil>" if "y \<noteq> of_int \<lfloor>y\<rfloor>"
    using that by (metis ceiling_altdef order_refl)
  moreover have "\<lfloor>y\<rfloor> \<le> \<lceil>y\<rceil>"
    by (rule floor_le_ceiling)
  ultimately show "round_half_even y \<le> \<lceil>y\<rceil>"
    by (auto simp: round_half_even_def Let_def)
qed

lemma round_half_even_between:
  assumes "of_int lo \<le> y" "y \<le> of_int hi"
  shows "lo \<le> round_half_even y" "round_half_even y \<le> hi"
proof -
  from assms(1) have "lo \<le> \<lfloor>y\<rfloor>" by (simp add: le_floor_iff)
  with round_half_even_bounds(1) [of y] show "lo \<le> round_half_even y" by linarith
  from assms(2) have "\<lceil>y\<rceil> \<le> hi" by (simp add: ceiling_le_iff)
  with round_half_even_bounds(2) [of y] show "round_half_even y \<le> hi" by linarith
qed

lemma exponent_of_small:
  assumes "0 < x" "x < 2 ^ 53"
  shows "exponent_of x \<le> 52"
proof (cases "1 \<le> x")
  case True
  have "nat \<lfloor>x\<rfloor> < 2 ^ 53"
  proof -
    have "\<lfloor>x\<rfloor> < 9007199254740992"
      using assms(2) by (simp add: floor_less_iff)
    then have "nat \<lfloor>x\<rfloor> < 9007199254740992"
      by linarith
    then show ?thesis by simp
  qed
  then have "floorlog 2 (nat \<lfloor>x\<rfloor>) \<le> 53"
    by (intro floorlog_leI) simp_all
  with True show ?thesis by (simp add: exponent_of_def)
next
  case False
  then show ?thesis by (simp add: exponent_of_def)
qed

lemma double_round_scaled:
  assumes "0 < x" "x < 2 ^ 53"
  shows "\<exists>n. double_round x = of_int (round_half_even (x * 2 ^ n)) / 2 ^ n"
proof -
  define q where "q = max (exponent_of \<bar>x\<bar> - 52) (- 1074)"
  have "q \<le> 0"
    using exponent_of_small [OF assms] assms(1) by (simp add: q_def)
  then have "pow2 q = 1 / 2 ^ nat (- q)"
    by (cases "q = 0") (simp_all add: pow2_def)
  moreover have "double_round x = of_int (round_half_even (x / pow2 q)) * pow2 q"
    using assms(1) by (simp add: double_round_def q_def Let_def)
  ultimately have "double_round x =
      of_int (round_half_even (x * 2 ^ nat (- q))) / 2 ^ nat (- q)"
    by simp
  then show ?thesis ..
qed

lemma double_round_between:
  assumes "0 \<le> x" "x \<le> 2 ^ 53"
  shows "of_int \<lfloor>x\<rfloor> \<le> double_round x" "double_round x \<le> of_int \<lceil>x\<rceil>"
proof -
  consider "x = 0" | "x = 2 ^ 53" | "0 < x" "x < 2 ^ 53"
    using assms by fastforce
  then have "of_int \<lfloor>x\<rfloor> \<le> double_round x \<and> double_round x \<le> of_int \<lceil>x\<rceil>"
  proof cases
    case 1
    then show ?thesis by (simp add: double_round_def)
  next
    case 2
    have "floorlog 2 (Suc 0) = Suc 0"
      by (simp add: compute_floorlog)
    then have "exponent_of (2 ^ 53) = 53"
      using floorlog_power [of 1 2 53] by (simp add: exponent_of_def)
    then have "double_round (2 ^ 53) = 2 ^ 53"
      by (simp add: double_round_def pow2_def round_half_even_def Let_def)
    with 2 show ?thesis by simp
  next
    case 3
    from double_round_scaled [OF 3] obtain n
      where n: "double_round x = of_int (round_half_even (x * 2 ^ n)) / 2 ^ n" ..
    have lo: "of_int (\<lfloor>x\<rfloor> * 2 ^ n) \<le> x * 2 ^ n"
      by (simp add: mult_right_mono)
    have hi: "x * 2 ^ n \<le> of_int (\<lceil>x\<rceil> * 2 ^ n)"
      by (simp add: mult_right_mono)
    from round_half_even_between [OF lo hi]
    have "\<lfloor>x\<rfloor> * 2 ^ n \<le> round_half_even (x * 2 ^ n)"
      and "round_half_even (x * 2 ^ n) \<le> \<lceil>x\<rceil> * 2 ^ n" .
    then have "rat_of_int (\<lfloor>x\<rfloor> * 2 ^ n) \<le> of_int (round_half_even (x * 2 ^ n))"
      and "rat_of_int (round_half_even (x * 2 ^ n)) \<le> of_int (\<lceil>x\<rceil> * 2 ^ n)"
      by (simp_all only: of_int_le_iff)
    then show ?thesis
      by (simp add: n pos_le_divide_eq pos_divide_le_eq)
  qed
  then show "of_int \<lfloor>x\<rfloor> \<le> double_round x" "double_round x \<le> of_int \<lceil>x\<rceil>"
    by simp_all
qed



lemma double_round_int:
  assumes "0 \<le> k" "k \<le> 2 ^ 53"
  shows "double_round (of_int k) = of_int k"
proof -
  have "rat_of_int k \<le> of_int (2 ^ 53)"
    using assms(2) by (simp only: of_int_le_iff)
  then have "0 \<le> rat_of_int k" "rat_of_int k \<le> 2 ^ 53"
    using assms(1) by simp_all
  from double_round_between [OF this]
  have "rat_of_int k \<le> double_round (of_int k)" "double_round (of_int k) \<le> rat_of_int k"
    by simp_all
  then show ?thesis by (rule order_antisym [rotated])
qed


lemma py_repeat_single: "py_repeat [c] n = replicate (nat n) c"
  by (induction "nat n" arbitrary: n) (simp_all add: py_repeat_def)

lemma to_double_in_range:
  assumes "0 \<le> x" "x \<le> 2 ^ 53"
  shows "to_double x = Inr (double_round x)"
proof -
  have "\<lceil>x\<rceil> \<le> 2 ^ 53"
    using assms(2) by (simp add: ceiling_le_iff)
  then have "rat_of_int \<lceil>x\<rceil> \<le> of_int (2 ^ 53)"
    by (simp only: of_int_le_iff)
  also have "rat_of_int (2 ^ 53) = 2 ^ 53"
    by simp
  finally have "rat_of_int \<lceil>x\<rceil> \<le> 2 ^ 53" .
  with double_round_between(2) [OF assms] have "double_round x \<le> 2 ^ 53"
    by (rule order_trans)
  also have "(2::rat) ^ 53 < 2 ^ 1024"
    by (rule power_strict_increasing) simp_all
  finally have "double_round x < 2 ^ 1024" .
  moreover have "0 \<le> double_round x"
  proof -
    have "0 \<le> rat_of_int \<lfloor>x\<rfloor>" using assms(1) by simp
    with double_round_between(1) [OF assms] show ?thesis by linarith
  qed
  ultimately show ?thesis
    by (simp add: to_double_def Let_def)
qed

lemma create_progress_bar_in_range:
  assumes "0 \<le> percentage" "percentage \<le> 1" "0 \<le> len" "len \<le> 2 ^ 53"
  shows "create_progress_bar percentage len =
           Inr (replicate (nat \<lfloor>double_round (of_int len * percentage)\<rfloor>) FILLED
                @ replicate (nat (len - \<lfloor>double_round (of_int len * percentage)\<rfloor>)) EMPTY)"
    and "\<lfloor>of_int len * percentage\<rfloor> \<le> \<lfloor>double_round (of_int len * percentage)\<rfloor>"
    and "\<lfloor>double_round (of_int len * percentage)\<rfloor> \<le> \<lceil>of_int len * percentage\<rceil>"
    and "0 \<le> \<lfloor>double_round (of_int len * percentage)\<rfloor>"
    and "\<lfloor>double_round (of_int len * percentage)\<rfloor> \<le> len"
proof -
  let ?x = "of_int len * percentage"
  have len_le: "rat_of_int len \<le> 2 ^ 53"
  proof -
    have "rat_of_int len \<le> of_int (2 ^ 53)"
      using assms(4) by (simp only: of_int_le_iff)
    then show ?thesis by simp
  qed
  have len_ge: "0 \<le> rat_of_int len"
    using assms(3) by simp
  have x_ge: "0 \<le> ?x"
    using len_ge assms(1) by (rule mult_nonneg_nonneg)
  have x_le_len: "?x \<le> of_int len"
    using mult_left_mono [OF assms(2) len_ge] by simp
  then have x_le: "?x \<le> 2 ^ 53"
    using len_le by (rule order_trans)
  note between = double_round_between [OF x_ge x_le]
  show lower: "\<lfloor>?x\<rfloor> \<le> \<lfloor>double_round ?x\<rfloor>"
    using between(1) by (simp add: le_floor_iff)
  have "\<lfloor>double_round ?x\<rfloor> \<le> \<lfloor>rat_of_int \<lceil>?x\<rceil>\<rfloor>"
    using between(2) by (rule floor_mono)
  then show upper: "\<lfloor>double_round ?x\<rfloor> \<le> \<lceil>?x\<rceil>"
    by simp
  have "0 \<le> \<lfloor>?x\<rfloor>"
    using x_ge by simp
  then show nonneg: "0 \<le> \<lfloor>double_round ?x\<rfloor>"
    using lower by (rule order_trans)
  have "\<lceil>?x\<rceil> \<le> len"
    using x_le_len by (simp add: ceiling_le_iff)
  with upper show "\<lfloor>double_round ?x\<rfloor> \<le> len"
    by (rule order_trans)
  have float_len: "to_double (of_int len) = Inr (of_int len)"
    using to_double_in_range [OF len_ge len_le] double_round_int [OF assms(3,4)] by simp
  have product: "to_double ?x = Inr (double_round ?x)"
    using x_ge x_le by (rule to_double_in_range)
  have "0 \<le> double_round ?x"
    using nonneg by simp
  then have "py_int (double_round ?x) = \<lfloor>double_round ?x\<rfloor>"
    by (simp add: py_int_def)
  then show "create_progress_bar percentage len =
           Inr (replicate (nat \<lfloor>double_round ?x\<rfloor>) FILLED
                @ replicate (nat (len - \<lfloor>double_round ?x\<rfloor>)) EMPTY)"
    by (simp add: create_progress_bar_def float_len product py_repeat_single Let_def)
qed


lemma exponent_examples:
  "exponent_of (15 / 4) = 1"
  "exponent_of (18014398509481983 / 18014398509481984) = - 1"
  "exponent_of (15762598695796735 / 2251799813685248) = 2"
  "exponent_of (18014398509481983 / 4503599627370496) = 1"
  by code_simp+

lemma double_round_examples:
  "double_round (15 / 4) = 15 / 4"
  "double_round (18014398509481983 / 18014398509481984) = 1"
  "double_round (15762598695796735 / 2251799813685248) = 7"
  "double_round (18014398509481983 / 4503599627370496) = 4"
  by (simp_all add: double_round_def exponent_examples pow2_def round_half_even_def Let_def
        floor_rat_numeral)

lemma floor_15_4: "\<lfloor>15 / 4 :: rat\<rfloor> = 3"
  by (simp add: floor_rat_numeral)

lemma round_15_4: "round (15 / 4 :: rat) = 4"
  by (simp add: round_def floor_rat_numeral)

text \<open>
  Products that round to a whole number in double precision: \<open>3 * 0.3333333333333333\<close>,
  \<open>10 * 0.7\<close> and \<open>12 * 0.3333333333333333\<close>.
\<close>

lemma create_progress_bar_rounded_products:
  "create_progress_bar (6004799503160661 / 18014398509481984) 3 = Inr (replicate 1 FILLED @ replicate 2 EMPTY)"
  "create_progress_bar (3152519739159347 / 4503599627370496) 10 = Inr (replicate 7 FILLED @ replicate 3 EMPTY)"
  "create_progress_bar (6004799503160661 / 18014398509481984) 12 = Inr (replicate 4 FILLED @ replicate 8 EMPTY)"
  by (simp_all add: create_progress_bar_in_range(1) double_round_examples)

text \<open>
  Claim C3, as the code has it. For a fraction in \<open>[0, 1]\<close> and a length from 0 to
  \<open>2^53\<close>, the function returns a bar of exactly \<open>length\<close> glyphs:
  \<^verbatim>\<open>int(length * fraction)\<close> filled glyphs followed by empty glyphs, where the product is
  the double-precision product and \<^verbatim>\<open>int\<close> truncates it (it is not rounded to the
  nearest integer). The number of filled glyphs is at least the floor and at most the
  ceiling of the exact product. With length 8, the fraction 0 gives 8 empty glyphs, 1
  gives 8 filled glyphs and 1/2 gives 4 filled and 4 empty glyphs.
\<close>

theorem progress_bar_truncates:
  assumes "0 \<le> percentage" "percentage \<le> 1" "0 \<le> len" "len \<le> 2 ^ 53"
  shows "create_progress_bar percentage len =
           Inr (replicate (nat \<lfloor>double_round (of_int len * percentage)\<rfloor>) FILLED
                @ replicate (nat (len - \<lfloor>double_round (of_int len * percentage)\<rfloor>)) EMPTY)
         \<and> map_sum id length (create_progress_bar percentage len) = Inr (nat len)
         \<and> \<lfloor>of_int len * percentage\<rfloor> \<le> \<lfloor>double_round (of_int len * percentage)\<rfloor>
         \<and> \<lfloor>double_round (of_int len * percentage)\<rfloor> \<le> \<lceil>of_int len * percentage\<rceil>
         \<and> create_progress_bar 0 8 = Inr (replicate 8 EMPTY)
         \<and> create_progress_bar 1 8 = Inr (replicate 8 FILLED)
         \<and> create_progress_bar (1 / 2) 8 = Inr (replicate 4 FILLED @ replicate 4 EMPTY)"
proof -
  note bar = create_progress_bar_in_range [OF assms]
  have "nat \<lfloor>double_round (of_int len * percentage)\<rfloor>
        + nat (len - \<lfloor>double_round (of_int len * percentage)\<rfloor>) = nat len"
    using bar(4,5) by linarith
  then have b: "map_sum id length (create_progress_bar percentage len) = Inr (nat len)"
    by (simp add: bar(1))
  have eight: "double_round 8 = 8" "double_round 4 = 4"
    using double_round_int [of 8] double_round_int [of 4] by simp_all
  have c: "create_progress_bar 0 8 = Inr (replicate 8 EMPTY)"
    by (simp add: create_progress_bar_in_range(1) double_round_def)
  have d: "create_progress_bar 1 8 = Inr (replicate 8 FILLED)"
    by (simp add: create_progress_bar_in_range(1) eight)
  have e: "create_progress_bar (1 / 2) 8 = Inr (replicate 4 FILLED @ replicate 4 EMPTY)"
    by (simp add: create_progress_bar_in_range(1) eight)
  from bar(1,2,3) b c d e show ?thesis by blast
qed

text \<open>
  At the double \<open>0.3333333333333333\<close> and length 3 the double-precision product is
  exactly 1, so one glyph is filled, while the exact product is below 1.
\<close>

theorem progress_bar_truncates_witness:
  "(0::rat) \<le> 6004799503160661 / 18014398509481984
   \<and> (6004799503160661 / 18014398509481984 :: rat) \<le> 1
   \<and> (0::int) \<le> 3 \<and> (3::int) \<le> 2 ^ 53
   \<and> create_progress_bar (6004799503160661 / 18014398509481984) 3
       = Inr (replicate 1 FILLED @ replicate 2 EMPTY)
   \<and> \<lfloor>3 * (6004799503160661 / 18014398509481984) :: rat\<rfloor> = 0
   \<and> \<lceil>3 * (6004799503160661 / 18014398509481984) :: rat\<rceil> = 1"
  using progress_bar_truncates [of "6004799503160661 / 18014398509481984" 3]
  by (simp add: double_round_examples floor_rat_numeral ceiling_eq_iff)

text \<open>
  The claim as the specification states it fails: at the fraction 3/4 and length 5 the
  product is 3.75, exactly, which the code truncates to 3 filled glyphs where rounding
  gives 4.
\<close>

theorem progress_bar_round_counterexample:
  "create_progress_bar (3 / 4) 5 = Inr [FILLED, FILLED, FILLED, EMPTY, EMPTY]
   \<and> progress_bar_spec (3 / 4) 5 = [FILLED, FILLED, FILLED, FILLED, EMPTY]"
  by (simp add: create_progress_bar_in_range(1) double_round_examples progress_bar_spec_def
        floor_15_4 round_15_4 numeral_eq_Suc)

section \<open>The pagination view: page count and slices\<close>

lemma init_roles:
  "roles (PaginationView_init rs a) = rev (filter (\<lambda>r. r_name r \<noteq> EVERYONE) rs)"
  by (simp add: PaginationView_init_def update_buttons_def Let_def)

lemma init_items_per_page: "items_per_page (PaginationView_init rs a) = 10"
  by (simp add: PaginationView_init_def update_buttons_def Let_def)

lemma init_total_pages:
  "total_pages (PaginationView_init rs a) =
     \<lceil>rat_of_nat (length (roles (PaginationView_init rs a))) / 10\<rceil>"
  by (simp add: PaginationView_init_def update_buttons_def Let_def)

lemma init_author_id: "author_id (PaginationView_init rs a) = a"
  by (simp add: PaginationView_init_def update_buttons_def Let_def)

lemma init_current_page: "current_page (PaginationView_init rs a) = 0"
  by (simp add: PaginationView_init_def update_buttons_def Let_def)


lemma member_role_name: "r_name (member_role k) \<noteq> EVERYONE"
  by (simp add: member_role_def sample_role_def EVERYONE_def ascii_def)

lemma everyone_role_name: "r_name everyone_role = EVERYONE"
  by (simp add: everyone_role_def sample_role_def)

lemma filter_member_roles:
  "filter (\<lambda>r. r_name r \<noteq> EVERYONE) (map member_role ks) = map member_role ks"
  by (induction ks) (simp_all add: member_role_name)

lemma twenty_three_view_roles:
  "roles (PaginationView_init twenty_three_roles a) = rev (map member_role [2..<25])"
  by (simp only: init_roles twenty_three_roles_def filter.simps everyone_role_name
        filter_member_roles simp_thms if_False)

lemma twenty_three_view_length:
  "length (roles (PaginationView_init twenty_three_roles a)) = 23"
  by (simp only: twenty_three_view_roles length_rev length_map length_upt)

lemma ceiling_23_10: "\<lceil>23 / 10 :: rat\<rceil> = 3"
  by (simp add: ceiling_eq_iff)

text \<open>
  Claim C4, as the code has it. With the page size fixed at 10, the total page count
  of a new view is \<open>ceil(N / 10)\<close> for the number \<open>N\<close> of roles it holds, for every
  \<open>N \<ge> 0\<close>; this is \<open>max(1, ceil(N / 10))\<close> whenever \<open>N \<ge> 1\<close>. The constructor applies no
  minimum of 1.
\<close>

theorem total_pages_is_ceiling:
  "total_pages (PaginationView_init rs a) =
     \<lceil>rat_of_nat (length (roles (PaginationView_init rs a))) / 10\<rceil>
   \<and> (1 \<le> length (roles (PaginationView_init rs a)) \<longrightarrow>
        total_pages (PaginationView_init rs a) =
          max 1 \<lceil>rat_of_nat (length (roles (PaginationView_init rs a))) / 10\<rceil>)"
proof -
  let ?n = "length (roles (PaginationView_init rs a))"
  have "1 \<le> ?n \<Longrightarrow> 1 \<le> \<lceil>rat_of_nat ?n / 10\<rceil>"
    by (cases "roles (PaginationView_init rs a)") simp_all
  then show ?thesis
    by (simp only: init_total_pages) (simp add: max_def)
qed

theorem total_pages_is_ceiling_witness:
  "1 \<le> length (roles (PaginationView_init twenty_three_roles 1))
   \<and> total_pages (PaginationView_init twenty_three_roles 1) = 3
   \<and> total_pages (PaginationView_init twenty_three_roles 1) = max 1 \<lceil>23 / 10 :: rat\<rceil>"
  using total_pages_is_ceiling [of twenty_three_roles 1]
  by (simp add: twenty_three_view_length ceiling_23_10)

text \<open>
  The claim as the specification states it fails on a guild that has only the
  \<open>@everyone\<close> role: the view holds no role and its total page count is 0, not 1.
\<close>

theorem total_pages_minimum_counterexample:
  "length (roles (PaginationView_init [everyone_role] 1)) = 0
   \<and> total_pages (PaginationView_init [everyone_role] 1) = 0
   \<and> max 1 \<lceil>rat_of_nat (length (roles (PaginationView_init [everyone_role] 1))) / 10\<rceil> = 1"
  by (simp add: init_total_pages init_roles everyone_role_name)


lemma py_slice_window:
  assumes "0 \<le> s" "0 \<le> n"
  shows "py_slice xs s (s + n) = take (nat n) (drop (nat s) xs)"
proof (cases "nat s \<le> length xs")
  case True
  with assms have "py_index (length xs) s = nat s"
    by (simp add: py_index_def)
  moreover from assms have "py_index (length xs) (s + n) = min (nat s + nat n) (length xs)"
    by (simp add: py_index_def nat_add_distrib)
  ultimately have "py_slice xs s (s + n) =
      take (min (nat s + nat n) (length xs) - nat s) (drop (nat s) xs)"
    by (simp add: py_slice_def Let_def)
  also have "min (nat s + nat n) (length xs) - nat s = min (nat n) (length (drop (nat s) xs))"
    using True by (auto simp: min_def)
  also have "take \<dots> (drop (nat s) xs) = take (nat n) (drop (nat s) xs)"
    by (simp add: min_def)
  finally show ?thesis .
next
  case False
  then have "drop (py_index (length xs) s) xs = []" "drop (nat s) xs = []"
    using assms by (simp_all add: py_index_def)
  then show ?thesis by (simp add: py_slice_def Let_def)
qed

lemma page_roles_window:
  assumes "items_per_page v = 10" "0 \<le> i"
  shows "page_roles (v\<lparr>current_page := i\<rparr>) = take 10 (drop (10 * nat i) (roles v))"
proof -
  have "page_roles (v\<lparr>current_page := i\<rparr>) = py_slice (roles v) (i * 10) (i * 10 + 10)"
    using assms by (simp add: page_roles_def Let_def)
  also have "\<dots> = take (nat 10) (drop (nat (i * 10)) (roles v))"
    using assms by (intro py_slice_window) simp_all
  also have "nat (i * 10) = 10 * nat i"
    using assms by (simp add: nat_mult_distrib)
  finally show ?thesis by simp
qed

lemma concat_windows:
  "concat (map (\<lambda>i. take n (drop (n * i) xs)) [0..<k]) = take (n * k) xs"
proof (induction k)
  case 0
  show ?case by simp
next
  case (Suc k)
  have "concat (map (\<lambda>i. take n (drop (n * i) xs)) [0..<Suc k]) =
          take (n * k) xs @ take n (drop (n * k) xs)"
    using Suc.IH by simp
  also have "\<dots> = take (n * k + n) xs"
    by (simp add: take_add)
  finally show ?case by (simp add: add.commute)
qed

lemma pages_cover:
  fixes n :: nat
  shows "n \<le> 10 * nat \<lceil>rat_of_nat n / 10\<rceil>"
proof -
  have "rat_of_nat n = 10 * (rat_of_nat n / 10)"
    by simp
  also have "\<dots> \<le> 10 * of_int \<lceil>rat_of_nat n / 10\<rceil>"
    by (intro mult_left_mono le_of_int_ceiling) simp
  also have "\<dots> = rat_of_int (10 * \<lceil>rat_of_nat n / 10\<rceil>)"
    by simp
  finally have "int n \<le> 10 * \<lceil>rat_of_nat n / 10\<rceil>"
    by (metis of_int_of_nat_eq of_int_le_iff)
  then show ?thesis by linarith
qed

text \<open>
  Claim C5. In a view with page size 10 whose total page count is \<open>ceil(N / 10)\<close>, the
  slice of every page \<open>i\<close> with \<open>0 \<le> i < total_pages\<close> is \<open>R[i*10 : i*10+10]\<close> clipped to
  the available length, it has at most 10 roles, and the slices of the pages
  \<open>0, ..., total_pages - 1\<close>, concatenated in order, are the role list \<open>R\<close> itself: every
  role appears exactly once across the pages.
\<close>

theorem page_slices_partition:
  assumes "items_per_page v = 10"
    and "total_pages v = \<lceil>rat_of_nat (length (roles v)) / 10\<rceil>"
  shows "(\<forall>i. 0 \<le> i \<and> i < total_pages v \<longrightarrow>
            page_roles (v\<lparr>current_page := i\<rparr>) = take 10 (drop (10 * nat i) (roles v))
            \<and> length (page_roles (v\<lparr>current_page := i\<rparr>)) \<le> 10)
         \<and> concat (map (\<lambda>i. page_roles (v\<lparr>current_page := int i\<rparr>))
               [0..<nat (total_pages v)]) = roles v"
proof -
  have window: "page_roles (v\<lparr>current_page := i\<rparr>) = take 10 (drop (10 * nat i) (roles v))"
    if "0 \<le> i" for i
    using assms(1) that by (rule page_roles_window)
  have "concat (map (\<lambda>i. page_roles (v\<lparr>current_page := int i\<rparr>)) [0..<nat (total_pages v)])
        = concat (map (\<lambda>i. take 10 (drop (10 * i) (roles v))) [0..<nat (total_pages v)])"
    by (simp add: window)
  also have "\<dots> = take (10 * nat (total_pages v)) (roles v)"
    by (rule concat_windows)
  also have "\<dots> = roles v"
    using pages_cover [of "length (roles v)"] by (simp add: assms(2))
  finally have all: "concat (map (\<lambda>i. page_roles (v\<lparr>current_page := int i\<rparr>))
      [0..<nat (total_pages v)]) = roles v" .
  from window all show ?thesis by simp
qed


theorem page_slices_partition_witness:
  "items_per_page (PaginationView_init twenty_three_roles 1) = 10
   \<and> total_pages (PaginationView_init twenty_three_roles 1) = 3
   \<and> page_roles ((PaginationView_init twenty_three_roles 1)\<lparr>current_page := 2\<rparr>) =
       take 10 (drop 20 (roles (PaginationView_init twenty_three_roles 1)))
   \<and> length (page_roles ((PaginationView_init twenty_three_roles 1)\<lparr>current_page := 2\<rparr>)) = 3
   \<and> concat (map (\<lambda>i. page_roles ((PaginationView_init twenty_three_roles 1)\<lparr>current_page := int i\<rparr>))
         [0..<3]) = roles (PaginationView_init twenty_three_roles 1)"
proof -
  let ?v = "PaginationView_init twenty_three_roles 1"
  have h1: "items_per_page ?v = 10"
    by (rule init_items_per_page)
  have h2: "total_pages ?v = \<lceil>rat_of_nat (length (roles ?v)) / 10\<rceil>"
    by (rule init_total_pages)
  have pages: "total_pages ?v = 3"
    by (simp add: init_total_pages twenty_three_view_length ceiling_23_10)
  note partition = page_slices_partition [OF h1 h2]
  from partition have "0 \<le> (2::int) \<and> 2 < total_pages ?v \<longrightarrow>
      page_roles (?v\<lparr>current_page := 2\<rparr>) = take 10 (drop (10 * nat 2) (roles ?v))
      \<and> length (page_roles (?v\<lparr>current_page := 2\<rparr>)) \<le> 10"
    by blast
  then have last: "page_roles (?v\<lparr>current_page := 2\<rparr>) = take 10 (drop 20 (roles ?v))"
    by (simp add: pages)
  have len: "length (page_roles (?v\<lparr>current_page := 2\<rparr>)) = 3"
    by (simp only: last length_take length_drop twenty_three_view_length)
  from partition have "concat (map (\<lambda>i. page_roles (?v\<lparr>current_page := int i\<rparr>))
      [0..<nat (total_pages ?v)]) = roles ?v"
    by blast
  then have whole: "concat (map (\<lambda>i. page_roles (?v\<lparr>current_page := int i\<rparr>)) [0..<3])
      = roles ?v"
    by (simp only: pages) simp
  from h1 pages last len whole show ?thesis by blast
qed

section \<open>The page controls\<close>

lemma prev_btn_rejects:
  "i_user_id i \<noteq> author_id v \<Longrightarrow>
     prev_btn_callback now v i = (v, [Send_message_text NOT_YOURS True], None)"
  by (simp add: prev_btn_callback_def)

lemma next_btn_rejects:
  "i_user_id i \<noteq> author_id v \<Longrightarrow>
     next_btn_callback now v i = (v, [Send_message_text NOT_YOURS True], None)"
  by (simp add: next_btn_callback_def)

text \<open>
  Claim C6. When a user other than the dashboard's creator activates the Previous or
  the Next control, the view is returned unchanged (so the page index is unchanged), the
  only call made is a private (ephemeral) rejection notice, and the public message is
  not edited.
\<close>

theorem page_controls_reject_other_users:
  assumes "i_user_id i \<noteq> author_id v"
  shows "prev_btn_callback now v i = (v, [Send_message_text NOT_YOURS True], None)
         \<and> next_btn_callback now v i = (v, [Send_message_text NOT_YOURS True], None)"
  using assms by (simp add: prev_btn_rejects next_btn_rejects)

theorem page_controls_reject_other_users_witness:
  "i_user_id \<lparr>i_user_id = 2, i_guild = sample_guild twenty_three_roles\<rparr>
     \<noteq> author_id (PaginationView_init twenty_three_roles 1)
   \<and> prev_btn_callback 0 (PaginationView_init twenty_three_roles 1)
         \<lparr>i_user_id = 2, i_guild = sample_guild twenty_three_roles\<rparr>
       = (PaginationView_init twenty_three_roles 1, [Send_message_text NOT_YOURS True], None)
   \<and> next_btn_callback 0 (PaginationView_init twenty_three_roles 1)
         \<lparr>i_user_id = 2, i_guild = sample_guild twenty_three_roles\<rparr>
       = (PaginationView_init twenty_three_roles 1, [Send_message_text NOT_YOURS True], None)"
  using page_controls_reject_other_users
    [of "\<lparr>i_user_id = 2, i_guild = sample_guild twenty_three_roles\<rparr>"
        "PaginationView_init twenty_three_roles 1" 0]
  by (simp add: init_author_id)

text \<open>
  Claim C7. After \<open>update_buttons\<close> the Previous control is disabled exactly when the
  page index is 0, the Next control is disabled exactly when the page index is
  \<open>total_pages - 1\<close>, and the label of the page counter is
  \<open>Page {page_index + 1}/{total_pages}\<close>. The three depend on the page index and the
  total page count only, which \<open>update_buttons\<close> leaves as they are, so computing them
  again changes nothing.
\<close>

theorem update_buttons_state:
  "b_disabled (prev_btn (update_buttons v)) = (current_page v = 0)
   \<and> b_disabled (next_btn (update_buttons v)) = (current_page v = total_pages v - 1)
   \<and> b_label (page_counter (update_buttons v)) =
       ascii ''Page '' @ str_int (current_page v + 1) @ ascii ''/'' @ str_int (total_pages v)
   \<and> current_page (update_buttons v) = current_page v
   \<and> total_pages (update_buttons v) = total_pages v
   \<and> update_buttons (update_buttons v) = update_buttons v"
  by (simp add: update_buttons_def)

lemma page_counter_example:
  "b_label (page_counter (update_buttons
      ((PaginationView_init twenty_three_roles 1)\<lparr>current_page := 2\<rparr>))) = ascii ''Page 3/3''"
  by (simp add: update_buttons_def init_total_pages twenty_three_view_length ceiling_23_10
        str_int_def str_nat.simps ascii_def)

section \<open>The role-detail selector's callback\<close>

lemma callback_resolved:
  assumes "s_values sel = v # vs" "int_of_str v = Some rid"
    "get_role (i_guild i) rid = Some role"
  shows "RoleDetailSelect_callback sel i = ([Send_message_embed (detail_embed role) True], None)"
  using assms by (simp add: RoleDetailSelect_callback_def)

lemma callback_stale:
  assumes "s_values sel = v # vs" "int_of_str v = Some rid"
    "get_role (i_guild i) rid = None"
  shows "RoleDetailSelect_callback sel i = ([], Some AttributeError)"
  using assms by (simp add: RoleDetailSelect_callback_def)

lemma key_permissions_field:
  "e_fields (detail_embed role) ! 0 =
     (KEY_PERMISSIONS,
      FENCE @ ascii ''diff'' @ NL
      @ (if perm_str_of role \<noteq> [] then perm_str_of role else ascii ''No special perms'')
      @ NL @ FENCE,
      True)"
  by (simp add: detail_embed_def add_field_def Embed_def Let_def KEY_PERMISSIONS_def)

lemma int_of_str_42: "int_of_str (ascii ''42'') = Some 42"
  by (simp add: int_of_str_def ascii_def)

lemma int_of_str_7: "int_of_str (ascii ''7'') = Some 7"
  by (simp add: int_of_str_def ascii_def)

lemma init_select:
  "select (PaginationView_init rs a) =
     RoleDetailSelect_init (rev (filter (\<lambda>r. r_name r \<noteq> EVERYONE) rs))"
  by (simp add: PaginationView_init_def update_buttons_def Let_def)

lemma helper_role_name: "r_name helper_role \<noteq> EVERYONE"
  by (simp add: helper_role_def sample_role_def EVERYONE_def ascii_def)

lemma helper_option_value:
  "map o_value (s_options (select (PaginationView_init [everyone_role, helper_role] 1)))
     = [ascii ''42'']"
proof -
  have "str_int (r_id helper_role) = ascii ''42''"
    by (simp add: helper_role_def sample_role_def str_int_def str_nat.simps ascii_def)
  then show ?thesis
    by (simp add: init_select RoleDetailSelect_init_def everyone_role_name helper_role_name)
qed

text \<open>
  Claim C2. A selection whose role no longer exists should give the user a private
  notice. The dashboard here is opened while the guild has the role \<open>Helper\<close> (identifier
  42), so the selector offers the value \<open>42\<close>; the role is deleted, and the entry is then
  selected. \<open>get_role\<close> returns \<open>None\<close> and the callback raises \<open>AttributeError\<close> at
  \<^verbatim>\<open>role.name\<close>, having sent nothing.
\<close>

theorem callback_deleted_role_faults:
  "map o_value (s_options (select (PaginationView_init [everyone_role, helper_role] 1)))
     = [ascii ''42'']
   \<and> get_role (sample_guild [everyone_role]) 42 = None
   \<and> RoleDetailSelect_callback
       ((select (PaginationView_init [everyone_role, helper_role] 1))\<lparr>s_values := [ascii ''42'']\<rparr>)
       \<lparr>i_user_id = 1, i_guild = sample_guild [everyone_role]\<rparr>
     = ([], Some AttributeError)"
proof -
  have gone: "get_role (sample_guild [everyone_role]) 42 = None"
    by (simp add: get_role_def sample_guild_def everyone_role_def sample_role_def)
  have "RoleDetailSelect_callback
       ((select (PaginationView_init [everyone_role, helper_role] 1))\<lparr>s_values := [ascii ''42'']\<rparr>)
       \<lparr>i_user_id = 1, i_guild = sample_guild [everyone_role]\<rparr>
     = ([], Some AttributeError)"
    by (rule callback_stale [where v = "ascii ''42''" and vs = "[]" and rid = 42])
       (simp_all add: int_of_str_42 gone)
  with helper_option_value gone show ?thesis by blast
qed


lemma perm_str_of_many:
  assumes "8 < length (filter snd (r_permissions role))"
  shows "perm_str_of role =
           py_join NL (map (\<lambda>p. [0x2705, 32] @ p) (take 8 (perms_of role)))
           @ NL @ ascii ''...and ''
           @ str_int (int (length (filter snd (r_permissions role))) - 8) @ ascii '' more''"
  using assms by (simp add: perm_str_of_def perms_of_def Let_def)

lemma perm_str_of_none:
  assumes "filter snd (r_permissions role) = []"
  shows "perm_str_of role = []"
  using assms by (simp add: perm_str_of_def perms_of_def Let_def)

text \<open>
  Claim C8. When the selected role has more than 8 enabled permissions, the callback
  sends the detail panel, whose permissions field lists exactly the first 8
  human-readable permission names, one per line, followed by the note
  \<open>...and {n-8} more\<close>, where \<open>n\<close> is the number of enabled permissions. A role with
  the administrator capability and 12 enabled permissions shows 8 names and
  \<open>...and 4 more\<close>.
\<close>

theorem detail_panel_truncates_permissions:
  assumes "s_values sel = v # vs" and "int_of_str v = Some rid"
    and "get_role (i_guild i) rid = Some role"
    and "8 < length (filter snd (r_permissions role))"
  shows "RoleDetailSelect_callback sel i = ([Send_message_embed (detail_embed role) True], None)
         \<and> e_fields (detail_embed role) ! 0 =
             (KEY_PERMISSIONS,
              FENCE @ ascii ''diff'' @ NL
              @ py_join NL (map (\<lambda>p. [0x2705, 32] @ p) (take 8 (perms_of role)))
              @ NL @ ascii ''...and ''
              @ str_int (int (length (filter snd (r_permissions role))) - 8) @ ascii '' more''
              @ NL @ FENCE,
              True)
         \<and> length (take 8 (perms_of role)) = 8"
proof -
  have sent: "RoleDetailSelect_callback sel i =
      ([Send_message_embed (detail_embed role) True], None)"
    using assms(1-3) by (rule callback_resolved)
  have "perm_str_of role \<noteq> []"
    using assms(4) by (simp add: perm_str_of_many NL_def)
  then have field: "e_fields (detail_embed role) ! 0 =
             (KEY_PERMISSIONS,
              FENCE @ ascii ''diff'' @ NL
              @ py_join NL (map (\<lambda>p. [0x2705, 32] @ p) (take 8 (perms_of role)))
              @ NL @ ascii ''...and ''
              @ str_int (int (length (filter snd (r_permissions role))) - 8) @ ascii '' more''
              @ NL @ FENCE,
              True)"
    using assms(4) by (simp add: key_permissions_field perm_str_of_many)
  have "length (take 8 (perms_of role)) = 8"
    using assms(4) by (simp add: perms_of_def)
  with sent field show ?thesis by blast
qed

lemma admin_enabled: "length (filter snd (r_permissions admin_role)) = 12"
  by (simp add: admin_role_def sample_role_def admin_permissions_def)

lemma title_simps:
  "title (replace 95 32 (ascii ''create_instant_invite'')) = ascii ''Create Instant Invite''"
  "title (replace 95 32 (ascii ''kick_members'')) = ascii ''Kick Members''"
  "title (replace 95 32 (ascii ''ban_members'')) = ascii ''Ban Members''"
  "title (replace 95 32 (ascii ''administrator'')) = ascii ''Administrator''"
  "title (replace 95 32 (ascii ''manage_channels'')) = ascii ''Manage Channels''"
  "title (replace 95 32 (ascii ''manage_guild'')) = ascii ''Manage Guild''"
  "title (replace 95 32 (ascii ''view_audit_log'')) = ascii ''View Audit Log''"
  "title (replace 95 32 (ascii ''stream'')) = ascii ''Stream''"
  by (simp_all add: title_def replace_def ascii_def to_upper_def to_lower_def
        is_upper_def is_lower_def)

lemma admin_first_eight:
  "take 8 (perms_of admin_role) =
     [ascii ''Create Instant Invite'', ascii ''Kick Members'', ascii ''Ban Members'',
      ascii ''Administrator'', ascii ''Manage Channels'', ascii ''Manage Guild'',
      ascii ''View Audit Log'', ascii ''Stream'']"
  by (simp add: perms_of_def admin_role_def sample_role_def admin_permissions_def title_simps)

lemma str_int_4: "str_int 4 = ascii ''4''"
  by (simp add: str_int_def str_nat.simps ascii_def)

lemma get_admin: "get_role (sample_guild three_roles) 7 = Some admin_role"
  by (simp add: get_role_def sample_guild_def three_roles_def everyone_role_def helper_role_def
        admin_role_def sample_role_def)

lemma get_helper: "get_role (sample_guild three_roles) 42 = Some helper_role"
  by (simp add: get_role_def sample_guild_def three_roles_def everyone_role_def helper_role_def
        sample_role_def)

theorem detail_panel_truncates_permissions_witness:
  "s_values ((select (PaginationView_init three_roles 1))\<lparr>s_values := [ascii ''7'']\<rparr>)
     = ascii ''7'' # []
   \<and> int_of_str (ascii ''7'') = Some 7
   \<and> get_role (i_guild \<lparr>i_user_id = 1, i_guild = sample_guild three_roles\<rparr>) 7 = Some admin_role
   \<and> r_administrator admin_role
   \<and> length (filter snd (r_permissions admin_role)) = 12
   \<and> RoleDetailSelect_callback
       ((select (PaginationView_init three_roles 1))\<lparr>s_values := [ascii ''7'']\<rparr>)
       \<lparr>i_user_id = 1, i_guild = sample_guild three_roles\<rparr>
     = ([Send_message_embed (detail_embed admin_role) True], None)
   \<and> e_fields (detail_embed admin_role) ! 0 =
       (KEY_PERMISSIONS,
        FENCE @ ascii ''diff'' @ NL
        @ py_join NL
            [[0x2705, 32] @ ascii ''Create Instant Invite'', [0x2705, 32] @ ascii ''Kick Members'',
             [0x2705, 32] @ ascii ''Ban Members'', [0x2705, 32] @ ascii ''Administrator'',
             [0x2705, 32] @ ascii ''Manage Channels'', [0x2705, 32] @ ascii ''Manage Guild'',
             [0x2705, 32] @ ascii ''View Audit Log'', [0x2705, 32] @ ascii ''Stream'']
        @ NL @ ascii ''...and 4 more'' @ NL @ FENCE,
        True)"
proof -
  let ?sel = "(select (PaginationView_init three_roles 1))\<lparr>s_values := [ascii ''7'']\<rparr>"
  let ?i = "\<lparr>i_user_id = 1, i_guild = sample_guild three_roles\<rparr>"
  have h1: "s_values ?sel = ascii ''7'' # []"
    by simp
  have h3: "get_role (i_guild ?i) 7 = Some admin_role"
    by (simp add: get_admin)
  have h4: "8 < length (filter snd (r_permissions admin_role))"
    by (simp add: admin_enabled)
  have adm: "r_administrator admin_role"
    by (simp add: admin_role_def sample_role_def admin_permissions_def)
  have note_text: "ascii ''...and '' @ str_int (int 12 - 8) @ ascii '' more'' = ascii ''...and 4 more''"
    by (simp add: str_int_4) (simp add: ascii_def)
  from detail_panel_truncates_permissions [OF h1 int_of_str_7 h3 h4]
  have "RoleDetailSelect_callback ?sel ?i = ([Send_message_embed (detail_embed admin_role) True], None)"
    and "e_fields (detail_embed admin_role) ! 0 =
       (KEY_PERMISSIONS,
        FENCE @ ascii ''diff'' @ NL
        @ py_join NL (map (\<lambda>p. [0x2705, 32] @ p) (take 8 (perms_of admin_role)))
        @ NL @ (ascii ''...and '' @ str_int (int 12 - 8) @ ascii '' more'') @ NL @ FENCE,
        True)"
    by (simp_all only: admin_enabled append_assoc)
  then show ?thesis
    using h1 h3 adm by (simp only: note_text admin_first_eight admin_enabled int_of_str_7) simp
qed


text \<open>
  Claim C10. When the selected role has no enabled permission, the permissions field
  of the detail panel shows the placeholder \<open>No special perms\<close> instead of an empty
  list.
\<close>

theorem detail_panel_no_permissions_placeholder:
  assumes "s_values sel = v # vs" and "int_of_str v = Some rid"
    and "get_role (i_guild i) rid = Some role"
    and "filter snd (r_permissions role) = []"
  shows "RoleDetailSelect_callback sel i = ([Send_message_embed (detail_embed role) True], None)
         \<and> e_fields (detail_embed role) ! 0 =
             (KEY_PERMISSIONS,
              FENCE @ ascii ''diff'' @ NL @ ascii ''No special perms'' @ NL @ FENCE,
              True)"
proof -
  have "RoleDetailSelect_callback sel i = ([Send_message_embed (detail_embed role) True], None)"
    using assms(1-3) by (rule callback_resolved)
  moreover have "e_fields (detail_embed role) ! 0 =
             (KEY_PERMISSIONS,
              FENCE @ ascii ''diff'' @ NL @ ascii ''No special perms'' @ NL @ FENCE,
              True)"
    using assms(4) by (simp add: key_permissions_field perm_str_of_none)
  ultimately show ?thesis by blast
qed

theorem detail_panel_no_permissions_placeholder_witness:
  "s_values ((select (PaginationView_init three_roles 1))\<lparr>s_values := [ascii ''42'']\<rparr>)
     = ascii ''42'' # []
   \<and> int_of_str (ascii ''42'') = Some 42
   \<and> get_role (i_guild \<lparr>i_user_id = 1, i_guild = sample_guild three_roles\<rparr>) 42
       = Some helper_role
   \<and> filter snd (r_permissions helper_role) = []
   \<and> RoleDetailSelect_callback
       ((select (PaginationView_init three_roles 1))\<lparr>s_values := [ascii ''42'']\<rparr>)
       \<lparr>i_user_id = 1, i_guild = sample_guild three_roles\<rparr>
     = ([Send_message_embed (detail_embed helper_role) True], None)
   \<and> e_fields (detail_embed helper_role) ! 0 =
       (KEY_PERMISSIONS,
        FENCE @ ascii ''diff'' @ NL @ ascii ''No special perms'' @ NL @ FENCE,
        True)"
proof -
  let ?sel = "(select (PaginationView_init three_roles 1))\<lparr>s_values := [ascii ''42'']\<rparr>"
  let ?i = "\<lparr>i_user_id = 1, i_guild = sample_guild three_roles\<rparr>"
  have h1: "s_values ?sel = ascii ''42'' # []"
    by simp
  have h3: "get_role (i_guild ?i) 42 = Some helper_role"
    by (simp add: get_helper)
  have h4: "filter snd (r_permissions helper_role) = []"
    by (simp add: helper_role_def sample_role_def)
  from detail_panel_no_permissions_placeholder [OF h1 int_of_str_42 h3 h4] h1 h3 h4 int_of_str_42
  show ?thesis by blast
qed

text \<open>
  Claim C9. The role-detail selector checks no authorization: whoever the acting user
  \<open>u\<close> is, selecting an entry whose role resolves sends the private (ephemeral) detail
  panel. The Previous and Next controls, on the same interaction, answer a user other
  than the creator of the view with the rejection notice.
\<close>

theorem selector_has_no_authorization_check:
  assumes "s_values sel = v # vs" and "int_of_str v = Some rid"
    and "get_role (i_guild i) rid = Some role"
  shows "RoleDetailSelect_callback sel (i\<lparr>i_user_id := u\<rparr>)
           = ([Send_message_embed (detail_embed role) True], None)
         \<and> (u \<noteq> author_id view \<longrightarrow>
              snd (prev_btn_callback now view (i\<lparr>i_user_id := u\<rparr>))
                = ([Send_message_text NOT_YOURS True], None)
              \<and> snd (next_btn_callback now view (i\<lparr>i_user_id := u\<rparr>))
                = ([Send_message_text NOT_YOURS True], None))"
proof -
  have "get_role (i_guild (i\<lparr>i_user_id := u\<rparr>)) rid = Some role"
    using assms(3) by simp
  with assms(1,2) have "RoleDetailSelect_callback sel (i\<lparr>i_user_id := u\<rparr>)
           = ([Send_message_embed (detail_embed role) True], None)"
    by (rule callback_resolved)
  then show ?thesis
    by (simp add: prev_btn_rejects next_btn_rejects)
qed

theorem selector_has_no_authorization_check_witness:
  "s_values ((select (PaginationView_init three_roles 1))\<lparr>s_values := [ascii ''7'']\<rparr>)
     = ascii ''7'' # []
   \<and> int_of_str (ascii ''7'') = Some 7
   \<and> get_role (i_guild \<lparr>i_user_id = 1, i_guild = sample_guild three_roles\<rparr>) 7 = Some admin_role
   \<and> (2::int) \<noteq> author_id (PaginationView_init three_roles 1)
   \<and> RoleDetailSelect_callback
       ((select (PaginationView_init three_roles 1))\<lparr>s_values := [ascii ''7'']\<rparr>)
       \<lparr>i_user_id = 2, i_guild = sample_guild three_roles\<rparr>
     = ([Send_message_embed (detail_embed admin_role) True], None)
   \<and> snd (prev_btn_callback 0 (PaginationView_init three_roles 1)
            \<lparr>i_user_id = 2, i_guild = sample_guild three_roles\<rparr>)
     = ([Send_message_text NOT_YOURS True], None)
   \<and> snd (next_btn_callback 0 (PaginationView_init three_roles 1)
            \<lparr>i_user_id = 2, i_guild = sample_guild three_roles\<rparr>)
     = ([Send_message_text NOT_YOURS True], None)"
proof -
  let ?sel = "(select (PaginationView_init three_roles 1))\<lparr>s_values := [ascii ''7'']\<rparr>"
  let ?i = "\<lparr>i_user_id = 1, i_guild = sample_guild three_roles\<rparr>"
  have h1: "s_values ?sel = ascii ''7'' # []"
    by simp
  have h3: "get_role (i_guild ?i) 7 = Some admin_role"
    by (simp add: get_admin)
  have other: "(2::int) \<noteq> author_id (PaginationView_init three_roles 1)"
    by (simp add: init_author_id)
  have upd: "?i\<lparr>i_user_id := 2\<rparr> = \<lparr>i_user_id = 2, i_guild = sample_guild three_roles\<rparr>"
    by simp
  from selector_has_no_authorization_check
    [OF h1 int_of_str_7 h3, of 2 "PaginationView_init three_roles 1" 0]
  show ?thesis
    using h1 h3 other int_of_str_7 by (simp only: upd) blast
qed

section \<open>The command on a guild without roles\<close>

lemma page_roles_empty: "roles self = [] \<Longrightarrow> page_roles self = []"
  by (simp add: page_roles_def py_slice_def Let_def)

lemma gen_empty: "roles self = [] \<Longrightarrow> generate_dashboard_embed now self g = Inl IndexError"
  by (simp add: generate_dashboard_embed_def page_roles_empty Let_def)

text \<open>
  Claim C1. A guild with no role besides \<open>@everyone\<close> should get exactly one plain
  message, no dashboard and no controls, without a fault. The command tests the role list
  before \<open>@everyone\<close> is filtered out: on a guild whose only role is \<open>@everyone\<close> the
  test passes, the view is built over an empty role list, and
  \<open>generate_dashboard_embed\<close> raises \<open>IndexError\<close> at \<^verbatim>\<open>self.roles[0]\<close>. The command has
  deferred and sends no message.
\<close>

theorem roles_command_only_everyone_faults:
  "roles_command 0 \<lparr>i_user_id = 1, i_guild = sample_guild [everyone_role]\<rparr>
     = ([Defer], Some IndexError)"
  by (simp add: roles_command_def sample_guild_def gen_empty init_roles everyone_role_name)

lemma roles_command_no_roles:
  "g_roles (i_guild i) = [] \<Longrightarrow>
     roles_command now i = ([Defer, Followup_send_text (ascii ''No roles found!'')], None)"
  by (simp add: roles_command_def)

end
